theory Spec2Isabelle
  imports Main
begin

section \<open>The hero section of the landing page (HeroSection.jsx)\<close>

text \<open>
  The component keeps three pieces of local state (\<open>statistics\<close>, \<open>loading\<close>, \<open>error\<close>),
  fetches the statistics once when none were passed in, and renders a loading placeholder,
  an error panel with a retry button, or the counters with up to three preview cards.
  The model below follows the source function by function. State setters called in one
  synchronous stretch of code (up to the \<open>await\<close>, or from the \<open>await\<close> to the end of
  \<open>finally\<close>) are applied together before the next render, as React batches them.
\<close>

subsection \<open>Data\<close>

text \<open>The object \<open>getStatistics\<close> resolves with; only the length of \<open>countries\<close> is read.\<close>

record Statistics =
  total_dogs :: int
  total_organizations :: int
  countries :: "string list"

text \<open>
  A preview dog: the component reads \<open>dog.id\<close> and forwards the whole record;
  \<open>dog_name\<close> stands for the rest of the record.
\<close>

record PreviewDog =
  dog_id :: nat
  dog_name :: string

text \<open>
  Modelled from the spec: \<open>getStatistics\<close> lives in \<open>services/animalsService\<close>, outside the
  component. Its result is a parameter of the model: it resolves with a statistics object
  or rejects with an error that carries a \<open>message\<close>, whatever its kind.
\<close>

datatype error_kind = NetworkFailure | MalformedResponse | ServerError

record thrown =
  kind :: error_kind
  message :: string

datatype outcome = Resolved Statistics | Rejected thrown

text \<open>
  One mounted component: its current props, its three state cells, and what it has done
  to the outside: the requests in flight, the requests issued so far, and the calls of
  \<open>reportError\<close> (label and message), oldest first.
\<close>

record component =
  initialStatistics :: "Statistics option"
  previewDogs :: "PreviewDog list"
  statistics :: "Statistics option"
  loading :: bool
  error :: "string option"
  pending :: nat
  requests :: nat
  reported :: "(string \<times> string) list"

subsection \<open>JavaScript truthiness and property reads\<close>

text \<open>An object is truthy, \<open>null\<close> is not; a string is truthy unless it is empty.\<close>

definition truthy_object :: "'a option \<Rightarrow> bool" where
  "truthy_object v = (case v of None \<Rightarrow> False | Some _ \<Rightarrow> True)"

definition truthy_string :: "string option \<Rightarrow> bool" where
  "truthy_string v = (case v of None \<Rightarrow> False | Some s \<Rightarrow> s \<noteq> [])"

text \<open>Reading a property of \<open>null\<close> throws a TypeError.\<close>

datatype js_error = TypeError

definition read_total_dogs :: "Statistics option \<Rightarrow> js_error + int" where
  "read_total_dogs s = (case s of None \<Rightarrow> Inl TypeError | Some st \<Rightarrow> Inr (total_dogs st))"

definition read_total_organizations :: "Statistics option \<Rightarrow> js_error + int" where
  "read_total_organizations s =
     (case s of None \<Rightarrow> Inl TypeError | Some st \<Rightarrow> Inr (total_organizations st))"

definition read_countries_length :: "Statistics option \<Rightarrow> js_error + int" where
  "read_countries_length s =
     (case s of None \<Rightarrow> Inl TypeError | Some st \<Rightarrow> Inr (int (length (countries st))))"

subsection \<open>fetchStatistics\<close>

text \<open>
  The calls \<open>fetchStatistics\<close> makes, in the order it makes them. The function runs in two
  stretches: up to the \<open>await\<close>, and from the settled promise through \<open>try\<close> or \<open>catch\<close>
  to the end of \<open>finally\<close>. \<open>reportError\<close> belongs to \<open>utils/logger\<close>; its call is
  recorded with the label and the message it is given.
\<close>

datatype action =
    setStatistics Statistics
  | setLoading bool
  | setError "string option"
  | getStatistics
  | reportError string string

fun perform :: "component \<Rightarrow> action \<Rightarrow> component" where
  "perform c (setStatistics stats) = c\<lparr>statistics := Some stats\<rparr>"
| "perform c (setLoading b) = c\<lparr>loading := b\<rparr>"
| "perform c (setError e) = c\<lparr>error := e\<rparr>"
| "perform c getStatistics = c\<lparr>pending := Suc (pending c), requests := Suc (requests c)\<rparr>"
| "perform c (reportError label msg) = c\<lparr>reported := reported c @ [(label, msg)]\<rparr>"

definition fetchStatistics_call :: "action list" where
  "fetchStatistics_call = [setLoading True, setError None, getStatistics]"

fun fetchStatistics_resume :: "outcome \<Rightarrow> action list" where
  "fetchStatistics_resume (Resolved stats) =
     [setStatistics stats] @ [setLoading False]"
| "fetchStatistics_resume (Rejected err) =
     [reportError ''Error fetching statistics'' (message err),
      setError (Some ''Unable to load statistics. Please try again later.'')]
     @ [setLoading False]"

definition fetchStatistics :: "component \<Rightarrow> component" where
  "fetchStatistics c = foldl perform c fetchStatistics_call"

definition settle :: "outcome \<Rightarrow> component \<Rightarrow> component" where
  "settle out c = foldl perform c (fetchStatistics_resume out)"

subsection \<open>Mounting: useState and useEffect\<close>

text \<open>An omitted \<open>previewDogs\<close> prop takes the default \<open>[]\<close>.\<close>

definition default_previewDogs :: "PreviewDog list option \<Rightarrow> PreviewDog list" where
  "default_previewDogs p = (case p of None \<Rightarrow> [] | Some dogs \<Rightarrow> dogs)"

text \<open>
  The state of the first render: \<open>useState(initialStatistics)\<close>,
  \<open>useState(!initialStatistics)\<close>, \<open>useState(null)\<close>. An omitted \<open>initialStatistics\<close> is
  \<open>null\<close>, that is \<open>None\<close>.
\<close>

definition first_render :: "Statistics option \<Rightarrow> PreviewDog list option \<Rightarrow> component" where
  "first_render init dogs =
     \<lparr>initialStatistics = init, previewDogs = default_previewDogs dogs,
      statistics = init, loading = (\<not> truthy_object init), error = None,
      pending = 0, requests = 0, reported = []\<rparr>"

definition useEffect :: "component \<Rightarrow> component" where
  "useEffect c = (if \<not> truthy_object (initialStatistics c) then fetchStatistics c else c)"

definition mount :: "Statistics option \<Rightarrow> PreviewDog list option \<Rightarrow> component" where
  "mount init dogs = useEffect (first_render init dogs)"

subsection \<open>The rendered tree\<close>

text \<open>
  \<open>AnimatedCounter\<close>, \<open>HeroDogPreviewCard\<close>, \<open>Button\<close> and \<open>Link\<close> are components of
  their own; the tree records the props the hero section gives them: a counter's
  \<open>value\<close> and \<open>label\<close>, a card's \<open>key\<close>, \<open>dog\<close>, \<open>index\<close> and \<open>priority\<close>, a
  link's \<open>href\<close>, and the handler of the retry button.
\<close>

datatype handler = onClick_fetchStatistics

datatype counter = AnimatedCounter int string

datatype card =
  HeroDogPreviewCard (card_key: nat) (card_dog: PreviewDog) (card_index: nat)
    (card_priority: bool)

datatype link = Link string

datatype preview = PreviewCards "card list" | BrowseAllDogs link

datatype panel =
    is_LoadingPlaceholder: LoadingPlaceholder
  | is_ErrorPanel: ErrorPanel string handler
  | is_SuccessPanel: SuccessPanel "counter list" preview

record view =
  cta_links :: "link list"
  right_column :: "panel list"

text \<open>\<open>previewDogs.slice(0, 3).map((dog, index) => ...)\<close>\<close>

definition preview_cards :: "PreviewDog list \<Rightarrow> card list" where
  "preview_cards dogs =
     map (\<lambda>(index, dog). HeroDogPreviewCard (dog_id dog) dog index (index = 0))
       (enumerate 0 (take 3 dogs))"

definition preview_area :: "PreviewDog list \<Rightarrow> preview" where
  "preview_area dogs =
     (if length dogs > 0 then PreviewCards (preview_cards dogs)
      else BrowseAllDogs (Link ''/gallery''))"

text \<open>The body of the third conditional: it reads the three fields of \<open>statistics\<close>.\<close>

definition success_panel :: "Statistics option \<Rightarrow> PreviewDog list \<Rightarrow> js_error + panel" where
  "success_panel stats dogs =
     (case read_total_dogs stats of Inl e \<Rightarrow> Inl e | Inr dogs_count \<Rightarrow>
      (case read_total_organizations stats of Inl e \<Rightarrow> Inl e | Inr orgs_count \<Rightarrow>
       (case read_countries_length stats of Inl e \<Rightarrow> Inl e | Inr countries_count \<Rightarrow>
          Inr (SuccessPanel
                 [AnimatedCounter dogs_count ''Dogs need homes'',
                  AnimatedCounter orgs_count ''Rescue Organizations'',
                  AnimatedCounter countries_count ''Countries'']
                 (preview_area dogs)))))"

text \<open>
  The returned tree: the two call-to-action links of the left column, and in the right
  column \<open>loading && ...\<close>, \<open>error && ...\<close> and
  \<open>statistics && !loading && !error && ...\<close>, each contributing a panel or nothing.
\<close>

definition HeroSection :: "component \<Rightarrow> js_error + view" where
  "HeroSection c =
     (let placeholder = (if loading c then [LoadingPlaceholder] else []);
          error_panel =
            (case error c of
               None \<Rightarrow> []
             | Some msg \<Rightarrow>
                 if truthy_string (Some msg) then [ErrorPanel msg onClick_fetchStatistics]
                 else []);
          links = [Link ''/donate'', Link ''/gallery'']
      in if truthy_object (statistics c) \<and> \<not> loading c \<and> \<not> truthy_string (error c)
         then (case success_panel (statistics c) (previewDogs c) of
                 Inl e \<Rightarrow> Inl e
               | Inr p \<Rightarrow>
                   Inr \<lparr>cta_links = links, right_column = placeholder @ error_panel @ [p]\<rparr>)
         else Inr \<lparr>cta_links = links, right_column = placeholder @ error_panel\<rparr>)"

text \<open>What a rendered tree shows: its panels, its preview cards, its fallback link.\<close>

definition panels :: "js_error + view \<Rightarrow> panel list" where
  "panels r = (case r of Inl _ \<Rightarrow> [] | Inr v \<Rightarrow> right_column v)"

fun cards_of :: "panel \<Rightarrow> card list" where
  "cards_of (SuccessPanel _ (PreviewCards cs)) = cs"
| "cards_of _ = []"

fun fallback_links_of :: "panel \<Rightarrow> link list" where
  "fallback_links_of (SuccessPanel _ (BrowseAllDogs l)) = [l]"
| "fallback_links_of _ = []"

definition rendered_cards :: "component \<Rightarrow> card list" where
  "rendered_cards c = concat (map cards_of (panels (HeroSection c)))"

definition rendered_fallback_links :: "component \<Rightarrow> link list" where
  "rendered_fallback_links c = concat (map fallback_links_of (panels (HeroSection c)))"

subsection \<open>What can happen to a mounted component\<close>

text \<open>
  A request in flight settles; the user clicks a button that is on the screen; the parent
  renders the component again with new props, and the effect runs again when
  \<open>initialStatistics\<close> has changed (its dependency list is \<open>[initialStatistics]\<close>). The
  state cells keep their values across renders: \<open>useState\<close> reads its argument on the
  first render only.
\<close>

datatype event =
    Settle outcome
  | Click handler
  | Rerender "Statistics option" "PreviewDog list option"

definition retry_rendered :: "component \<Rightarrow> bool" where
  "retry_rendered c = list_ex is_ErrorPanel (panels (HeroSection c))"

fun step :: "component \<Rightarrow> event \<Rightarrow> component" where
  "step c (Settle out) =
     (if 0 < pending c then settle out (c\<lparr>pending := pending c - 1\<rparr>) else c)"
| "step c (Click onClick_fetchStatistics) =
     (if retry_rendered c then fetchStatistics c else c)"
| "step c (Rerender init dogs) =
     (let c' = c\<lparr>initialStatistics := init, previewDogs := default_previewDogs dogs\<rparr>
      in if init = initialStatistics c then c' else useEffect c')"

definition run :: "component \<Rightarrow> event list \<Rightarrow> component" where
  "run c evs = foldl step c evs"

subsection \<open>Invariants and sample data\<close>

text \<open>Events that leave the \<open>initialStatistics\<close> prop an object.\<close>

fun keeps_initialStatistics :: "event \<Rightarrow> bool" where
  "keeps_initialStatistics (Rerender init dogs) = truthy_object init"
| "keeps_initialStatistics _ = True"

text \<open>The state of a component that was given its statistics and never fetched.\<close>

definition settled_with :: "Statistics \<Rightarrow> component \<Rightarrow> bool" where
  "settled_with st c =
     (truthy_object (initialStatistics c) \<and> statistics c = Some st \<and> \<not> loading c
      \<and> error c = None \<and> pending c = 0 \<and> requests c = 0)"

text \<open>
  What every reachable state satisfies: while loading no error is set; otherwise the fixed
  error is set or statistics are stored.
\<close>

definition consistent :: "component \<Rightarrow> bool" where
  "consistent c =
     (if loading c then error c = None
      else (error c = Some ''Unable to load statistics. Please try again later.''
            \<or> (error c = None \<and> truthy_object (statistics c))))"

text \<open>Sample values for the instances below.\<close>

definition st0 :: Statistics where
  "st0 = \<lparr>total_dogs = 412, total_organizations = 12, countries = [''CA'', ''TR'']\<rparr>"

definition e0 :: thrown where
  "e0 = \<lparr>kind = NetworkFailure, message = ''Network Error''\<rparr>"

definition five_dogs :: "PreviewDog list" where
  "five_dogs =
     [\<lparr>dog_id = 101, dog_name = ''Ada''\<rparr>, \<lparr>dog_id = 102, dog_name = ''Bo''\<rparr>,
      \<lparr>dog_id = 103, dog_name = ''Cleo''\<rparr>, \<lparr>dog_id = 104, dog_name = ''Duke''\<rparr>,
      \<lparr>dog_id = 105, dog_name = ''Echo''\<rparr>]"

section \<open>Auxiliary facts\<close>

lemma fetchStatistics_eq:
  "fetchStatistics c =
     c\<lparr>loading := True, error := None, pending := Suc (pending c),
       requests := Suc (requests c)\<rparr>"
  by (simp add: fetchStatistics_def fetchStatistics_call_def)

lemma settle_Resolved:
  "settle (Resolved stats) c = c\<lparr>statistics := Some stats, loading := False\<rparr>"
  by (simp add: settle_def)

lemma settle_Rejected:
  "settle (Rejected err) c =
     c\<lparr>reported := reported c @ [(''Error fetching statistics'', message err)],
       error := Some ''Unable to load statistics. Please try again later.'',
       loading := False\<rparr>"
  by (simp add: settle_def)

lemma success_panel_Some:
  "success_panel (Some st) dogs =
     Inr (SuccessPanel
            [AnimatedCounter (total_dogs st) ''Dogs need homes'',
             AnimatedCounter (total_organizations st) ''Rescue Organizations'',
             AnimatedCounter (int (length (countries st))) ''Countries'']
            (preview_area dogs))"
  by (simp add: success_panel_def read_total_dogs_def read_total_organizations_def
      read_countries_length_def)

lemma HeroSection_loading:
  "loading c \<Longrightarrow> error c = None \<Longrightarrow>
   HeroSection c =
     Inr \<lparr>cta_links = [Link ''/donate'', Link ''/gallery''],
          right_column = [LoadingPlaceholder]\<rparr>"
  by (simp add: HeroSection_def truthy_string_def)

lemma HeroSection_error:
  "\<not> loading c \<Longrightarrow> error c = Some (m # ms) \<Longrightarrow>
   HeroSection c =
     Inr \<lparr>cta_links = [Link ''/donate'', Link ''/gallery''],
          right_column = [ErrorPanel (m # ms) onClick_fetchStatistics]\<rparr>"
  by (simp add: HeroSection_def truthy_string_def)

lemma HeroSection_success:
  "\<not> loading c \<Longrightarrow> error c = None \<Longrightarrow> statistics c = Some st \<Longrightarrow>
   HeroSection c =
     Inr \<lparr>cta_links = [Link ''/donate'', Link ''/gallery''],
          right_column =
            [SuccessPanel
               [AnimatedCounter (total_dogs st) ''Dogs need homes'',
                AnimatedCounter (total_organizations st) ''Rescue Organizations'',
                AnimatedCounter (int (length (countries st))) ''Countries'']
               (preview_area (previewDogs c))]\<rparr>"
  by (simp add: HeroSection_def truthy_string_def truthy_object_def success_panel_Some)

lemma HeroSection_total: "\<exists>v. HeroSection c = Inr v"
proof (cases "statistics c")
  case None
  then show ?thesis by (simp add: HeroSection_def truthy_object_def)
next
  case (Some st)
  then show ?thesis by (simp add: HeroSection_def success_panel_Some Let_def)
qed

lemma mount_Some: "mount (Some st) dogs = first_render (Some st) dogs"
  by (simp add: mount_def useEffect_def first_render_def truthy_object_def)

lemma mount_None:
  "mount None dogs =
     \<lparr>initialStatistics = None, previewDogs = default_previewDogs dogs,
      statistics = None, loading = True, error = None,
      pending = 1, requests = 1, reported = []\<rparr>"
  by (simp add: mount_def useEffect_def first_render_def truthy_object_def fetchStatistics_eq)

lemma retry_rendered_iff: "retry_rendered c = truthy_string (error c)"
proof (cases "statistics c")
  case None
  then show ?thesis
    by (simp add: retry_rendered_def panels_def HeroSection_def Let_def truthy_object_def
        truthy_string_def split: option.splits)
next
  case (Some st)
  then show ?thesis
    by (simp add: retry_rendered_def panels_def HeroSection_def Let_def truthy_object_def
        truthy_string_def success_panel_Some split: option.splits)
qed

lemma settled_with_step:
  "settled_with st c \<Longrightarrow> keeps_initialStatistics ev \<Longrightarrow> settled_with st (step c ev)"
proof (cases ev)
  case (Settle out)
  assume "settled_with st c"
  with Settle show ?thesis by (simp add: settled_with_def)
next
  case (Click h)
  assume "settled_with st c"
  with Click show ?thesis
    by (cases h) (simp add: settled_with_def retry_rendered_iff truthy_string_def)
next
  case (Rerender init dogs)
  assume "settled_with st c" and "keeps_initialStatistics ev"
  with Rerender show ?thesis
    by (simp add: settled_with_def useEffect_def Let_def)
qed

lemma settled_with_run:
  "settled_with st c \<Longrightarrow> list_all keeps_initialStatistics evs \<Longrightarrow>
   settled_with st (run c evs)"
  unfolding run_def
  by (induction evs arbitrary: c) (simp_all add: settled_with_step)

lemma panels_HeroSection:
  "panels (HeroSection c) =
     (if loading c then [LoadingPlaceholder] else [])
     @ (case error c of
          None \<Rightarrow> []
        | Some m \<Rightarrow> if m = [] then [] else [ErrorPanel m onClick_fetchStatistics])
     @ (case statistics c of
          None \<Rightarrow> []
        | Some st \<Rightarrow>
            if \<not> loading c \<and> \<not> truthy_string (error c)
            then [SuccessPanel
                    [AnimatedCounter (total_dogs st) ''Dogs need homes'',
                     AnimatedCounter (total_organizations st) ''Rescue Organizations'',
                     AnimatedCounter (int (length (countries st))) ''Countries'']
                    (preview_area (previewDogs c))]
            else [])"
proof (cases "statistics c")
  case None
  then show ?thesis
    by (simp add: panels_def HeroSection_def Let_def truthy_object_def truthy_string_def
        split: option.splits)
next
  case (Some st)
  then show ?thesis
    by (simp add: panels_def HeroSection_def Let_def truthy_object_def truthy_string_def
        success_panel_Some split: option.splits)
qed

lemma rendered_cards_loading: "loading c \<Longrightarrow> rendered_cards c = []"
  by (auto simp: rendered_cards_def panels_HeroSection split: option.splits)

lemma rendered_cards_error: "error c = Some (m # ms) \<Longrightarrow> rendered_cards c = []"
  by (auto simp: rendered_cards_def panels_HeroSection truthy_string_def split: option.splits)

lemma rendered_cards_null: "statistics c = None \<Longrightarrow> rendered_cards c = []"
  by (auto simp: rendered_cards_def panels_HeroSection split: option.splits)

lemma rendered_cards_empty: "previewDogs c = [] \<Longrightarrow> rendered_cards c = []"
  by (auto simp: rendered_cards_def panels_HeroSection preview_area_def split: option.splits)

lemma rendered_cards_success:
  "\<not> loading c \<Longrightarrow> error c = None \<Longrightarrow> statistics c = Some st \<Longrightarrow> previewDogs c \<noteq> [] \<Longrightarrow>
   rendered_cards c = preview_cards (previewDogs c)"
  by (simp add: rendered_cards_def panels_HeroSection preview_area_def truthy_string_def)

lemma preview_cards_first_three:
  "preview_cards (a # b # d # rest) =
     [HeroDogPreviewCard (dog_id a) a 0 True,
      HeroDogPreviewCard (dog_id b) b 1 False,
      HeroDogPreviewCard (dog_id d) d 2 False]"
  by (simp add: preview_cards_def)

lemma fallback_loading: "loading c \<Longrightarrow> rendered_fallback_links c = []"
  by (auto simp: rendered_fallback_links_def panels_HeroSection split: option.splits)

lemma fallback_error: "error c = Some (m # ms) \<Longrightarrow> rendered_fallback_links c = []"
  by (auto simp: rendered_fallback_links_def panels_HeroSection truthy_string_def
      split: option.splits)

lemma fallback_null: "statistics c = None \<Longrightarrow> rendered_fallback_links c = []"
  by (auto simp: rendered_fallback_links_def panels_HeroSection split: option.splits)

lemma fallback_success:
  "\<not> loading c \<Longrightarrow> error c = None \<Longrightarrow> statistics c = Some st \<Longrightarrow> previewDogs c = [] \<Longrightarrow>
   rendered_fallback_links c = [Link ''/gallery'']"
  by (simp add: rendered_fallback_links_def panels_HeroSection preview_area_def
      truthy_string_def)

lemma consistent_first_render: "consistent (first_render init dogs)"
  by (simp add: consistent_def first_render_def)

lemma consistent_fetchStatistics: "consistent (fetchStatistics c)"
  by (simp add: consistent_def fetchStatistics_eq)

lemma consistent_useEffect: "consistent c \<Longrightarrow> consistent (useEffect c)"
  by (simp add: useEffect_def consistent_fetchStatistics)

lemma consistent_settle: "consistent c \<Longrightarrow> consistent (settle out c)"
  by (cases out) (auto simp: consistent_def settle_Resolved settle_Rejected truthy_object_def
      split: if_splits)

lemma consistent_props:
  "consistent (c\<lparr>initialStatistics := init\<rparr>) = consistent c"
  "consistent (c\<lparr>previewDogs := dogs\<rparr>) = consistent c"
  by (simp_all add: consistent_def)

lemma consistent_pending: "consistent (c\<lparr>pending := n\<rparr>) = consistent c"
  by (simp add: consistent_def)

lemma consistent_step: "consistent c \<Longrightarrow> consistent (step c ev)"
proof (cases ev)
  case (Settle out)
  assume "consistent c"
  with Settle show ?thesis by (simp add: consistent_settle consistent_pending)
next
  case (Click h)
  assume "consistent c"
  with Click show ?thesis by (cases h) (simp add: consistent_fetchStatistics)
next
  case (Rerender init dogs)
  assume "consistent c"
  with Rerender show ?thesis
    by (simp add: Let_def consistent_useEffect consistent_props)
qed

lemma consistent_run: "consistent c \<Longrightarrow> consistent (run c evs)"
  unfolding run_def by (induction evs arbitrary: c) (simp_all add: consistent_step)

lemma consistent_reachable: "consistent (run (mount init dogs) evs)"
  by (simp add: consistent_run mount_def consistent_useEffect consistent_first_render)

section \<open>The properties\<close>

text \<open>
  Claim C1. Whatever error the statistics request rejects with, the \<open>catch\<close> branch calls
  \<open>reportError\<close> with the fixed label and the error's own message, sets the error shown to
  the user to the fixed sentence, and \<open>finally\<close> sets \<open>loading\<close> to false last. The same
  holds for a request in flight that settles with a rejection.
\<close>

theorem fetch_failure_reported_and_shown:
  "fetchStatistics_resume (Rejected err) =
     [reportError ''Error fetching statistics'' (message err),
      setError (Some ''Unable to load statistics. Please try again later.''),
      setLoading False]
   \<and> error (settle (Rejected err) c) =
       Some ''Unable to load statistics. Please try again later.''
   \<and> reported (settle (Rejected err) c) =
       reported c @ [(''Error fetching statistics'', message err)]
   \<and> loading (settle (Rejected err) c) = False
   \<and> step (c\<lparr>pending := Suc n\<rparr>) (Settle (Rejected err)) =
       settle (Rejected err) (c\<lparr>pending := n\<rparr>)"
  by (simp add: settle_Rejected)

text \<open>
  Claim C2. With a statistics object passed as \<open>initialStatistics\<close>, the effect issues no
  request, the first render has \<open>loading = False\<close> and stores the object, and the success
  panel with its counters and preview area is what the first render returns. As long as
  the prop stays an object (clicks, settled requests and re-renders with an object), no
  request is ever issued.
\<close>

theorem initialStatistics_skips_fetch:
  assumes "list_all keeps_initialStatistics evs"
  shows "mount (Some st) dogs = first_render (Some st) dogs
    \<and> requests (mount (Some st) dogs) = 0
    \<and> loading (first_render (Some st) dogs) = False
    \<and> statistics (first_render (Some st) dogs) = Some st
    \<and> HeroSection (first_render (Some st) dogs) =
        Inr \<lparr>cta_links = [Link ''/donate'', Link ''/gallery''],
             right_column =
               [SuccessPanel
                  [AnimatedCounter (total_dogs st) ''Dogs need homes'',
                   AnimatedCounter (total_organizations st) ''Rescue Organizations'',
                   AnimatedCounter (int (length (countries st))) ''Countries'']
                  (preview_area (default_previewDogs dogs))]\<rparr>
    \<and> requests (run (mount (Some st) dogs) evs) = 0
    \<and> statistics (run (mount (Some st) dogs) evs) = Some st
    \<and> loading (run (mount (Some st) dogs) evs) = False"
proof -
  let ?c = "first_render (Some st) dogs"
  have init: "settled_with st ?c"
    by (simp add: settled_with_def first_render_def truthy_object_def)
  have fin: "settled_with st (run (mount (Some st) dogs) evs)"
    using settled_with_run [OF init assms] by (simp add: mount_Some)
  have view: "HeroSection ?c =
        Inr \<lparr>cta_links = [Link ''/donate'', Link ''/gallery''],
             right_column =
               [SuccessPanel
                  [AnimatedCounter (total_dogs st) ''Dogs need homes'',
                   AnimatedCounter (total_organizations st) ''Rescue Organizations'',
                   AnimatedCounter (int (length (countries st))) ''Countries'']
                  (preview_area (default_previewDogs dogs))]\<rparr>"
    using HeroSection_success [of ?c st]
    by (simp add: first_render_def truthy_object_def)
  from init fin view show ?thesis
    by (simp add: mount_Some settled_with_def)
qed

text \<open>An instance: a click, a stray settlement and a re-render with the same object.\<close>

theorem initialStatistics_skips_fetch_witness:
  "list_all keeps_initialStatistics
     [Click onClick_fetchStatistics, Settle (Rejected e0), Rerender (Some st0) None]
   \<and> requests (run (mount (Some st0) None)
        [Click onClick_fetchStatistics, Settle (Rejected e0), Rerender (Some st0) None]) = 0
   \<and> loading (first_render (Some st0) None) = False"
proof -
  have h: "list_all keeps_initialStatistics
     [Click onClick_fetchStatistics, Settle (Rejected e0), Rerender (Some st0) None]"
    by (simp add: truthy_object_def)
  from h initialStatistics_skips_fetch [OF h, of st0 None] show ?thesis by blast
qed

text \<open>
  Claim C3 speaks of every list of more than three preview dogs. The cards live inside the
  success panel, which is guarded by \<open>statistics && !loading && !error\<close>: mounted with five
  dogs and no statistics, the component renders no card at all while the request is in
  flight.
\<close>

theorem no_preview_cards_while_loading:
  "length five_dogs = 5
   \<and> previewDogs (mount None (Some five_dogs)) = five_dogs
   \<and> rendered_cards (mount None (Some five_dogs)) = []"
  by (simp add: five_dogs_def mount_None default_previewDogs_def rendered_cards_loading)

text \<open>
  Claim C3, amended. When the success panel is rendered (statistics stored, not loading, no
  error) and \<open>previewDogs\<close> has more than three entries, the cards rendered are exactly the
  first three entries in their order; each card gets the dog, its position as \<open>index\<close>, the
  dog's id as \<open>key\<close>, and \<open>priority\<close> is true for position 0 only. While loading, while
  an error is shown, and without statistics no card is rendered.
\<close>

theorem first_three_previews_in_success_view:
  assumes "3 < length dogs"
  shows "rendered_cards
           (c\<lparr>previewDogs := dogs, statistics := Some st, loading := False, error := None\<rparr>) =
         [HeroDogPreviewCard (dog_id (dogs ! 0)) (dogs ! 0) 0 True,
          HeroDogPreviewCard (dog_id (dogs ! 1)) (dogs ! 1) 1 False,
          HeroDogPreviewCard (dog_id (dogs ! 2)) (dogs ! 2) 2 False]
    \<and> map card_dog
          (rendered_cards
             (c\<lparr>previewDogs := dogs, statistics := Some st, loading := False,
                error := None\<rparr>)) = take 3 dogs
    \<and> rendered_cards (c\<lparr>previewDogs := dogs, loading := True\<rparr>) = []
    \<and> rendered_cards (c\<lparr>previewDogs := dogs, error := Some (m # ms)\<rparr>) = []
    \<and> rendered_cards (c\<lparr>previewDogs := dogs, statistics := None\<rparr>) = []"
proof -
  from assms obtain a r1 where r1: "dogs = a # r1" by (cases dogs) auto
  with assms obtain b r2 where r2: "r1 = b # r2" by (cases r1) auto
  with assms r1 obtain d rest where r3: "r2 = d # rest" by (cases r2) auto
  from r1 r2 r3 have dogs: "dogs = a # b # d # rest" by simp
  let ?s = "c\<lparr>previewDogs := dogs, statistics := Some st, loading := False, error := None\<rparr>"
  have "rendered_cards ?s = preview_cards dogs"
    using rendered_cards_success [of ?s st] dogs by simp
  then have shown: "rendered_cards ?s =
         [HeroDogPreviewCard (dog_id (dogs ! 0)) (dogs ! 0) 0 True,
          HeroDogPreviewCard (dog_id (dogs ! 1)) (dogs ! 1) 1 False,
          HeroDogPreviewCard (dog_id (dogs ! 2)) (dogs ! 2) 2 False]"
    by (simp add: dogs preview_cards_first_three)
  have order: "map card_dog (rendered_cards ?s) = take 3 dogs"
    unfolding shown by (simp add: dogs)
  from shown order show ?thesis
    by (simp add: rendered_cards_loading rendered_cards_error rendered_cards_null)
qed

text \<open>An instance with five dogs: the cards of the first three.\<close>

theorem first_three_previews_in_success_view_witness:
  "3 < length five_dogs
   \<and> rendered_cards
       \<lparr>initialStatistics = Some st0, previewDogs = five_dogs, statistics = Some st0,
        loading = False, error = None, pending = 0, requests = 0, reported = []\<rparr> =
     [HeroDogPreviewCard 101 \<lparr>dog_id = 101, dog_name = ''Ada''\<rparr> 0 True,
      HeroDogPreviewCard 102 \<lparr>dog_id = 102, dog_name = ''Bo''\<rparr> 1 False,
      HeroDogPreviewCard 103 \<lparr>dog_id = 103, dog_name = ''Cleo''\<rparr> 2 False]"
proof -
  have h: "3 < length five_dogs" by (simp add: five_dogs_def)
  from first_three_previews_in_success_view [where dogs = five_dogs and c = "first_render (Some st0) None" and st = st0, OF h]
  have "rendered_cards
          (first_render (Some st0) None
             \<lparr>previewDogs := five_dogs, statistics := Some st0, loading := False,
              error := None\<rparr>) =
        [HeroDogPreviewCard (dog_id (five_dogs ! 0)) (five_dogs ! 0) 0 True,
         HeroDogPreviewCard (dog_id (five_dogs ! 1)) (five_dogs ! 1) 1 False,
         HeroDogPreviewCard (dog_id (five_dogs ! 2)) (five_dogs ! 2) 2 False]"
    by blast
  then show ?thesis using h
    by (simp add: first_render_def five_dogs_def)
qed

text \<open>
  Claim C4 promises the fallback link whenever no preview dogs are supplied. The link is
  part of the success panel: mounted without any prop, after the request has failed the
  component shows the error panel and no fallback link.
\<close>

theorem no_fallback_link_after_failure:
  "previewDogs (step (mount None None) (Settle (Rejected e0))) = []
   \<and> rendered_fallback_links (step (mount None None) (Settle (Rejected e0))) = []"
  by (simp add: mount_None default_previewDogs_def settle_Rejected fallback_error)

text \<open>
  Claim C4, amended. With an empty \<open>previewDogs\<close> (the default of an omitted prop is the
  empty list) no preview card is rendered in any state; when the success panel is rendered
  (statistics stored, not loading, no error) its preview area is the link to \<open>/gallery\<close>.
  While loading, while an error is shown, and without statistics the link is not rendered.
\<close>

theorem empty_previews_fallback_in_success_view:
  "default_previewDogs None = []
   \<and> rendered_cards (c\<lparr>previewDogs := []\<rparr>) = []
   \<and> HeroSection
       (c\<lparr>previewDogs := [], statistics := Some st, loading := False, error := None\<rparr>) =
     Inr \<lparr>cta_links = [Link ''/donate'', Link ''/gallery''],
          right_column =
            [SuccessPanel
               [AnimatedCounter (total_dogs st) ''Dogs need homes'',
                AnimatedCounter (total_organizations st) ''Rescue Organizations'',
                AnimatedCounter (int (length (countries st))) ''Countries'']
               (BrowseAllDogs (Link ''/gallery''))]\<rparr>
   \<and> rendered_fallback_links
       (c\<lparr>previewDogs := [], statistics := Some st, loading := False, error := None\<rparr>) =
     [Link ''/gallery'']
   \<and> rendered_fallback_links (c\<lparr>previewDogs := [], loading := True\<rparr>) = []
   \<and> rendered_fallback_links (c\<lparr>previewDogs := [], error := Some (m # ms)\<rparr>) = []
   \<and> rendered_fallback_links (c\<lparr>previewDogs := [], statistics := None\<rparr>) = []"
proof -
  let ?s = "c\<lparr>previewDogs := [], statistics := Some st, loading := False, error := None\<rparr>"
  have "HeroSection ?s =
     Inr \<lparr>cta_links = [Link ''/donate'', Link ''/gallery''],
          right_column =
            [SuccessPanel
               [AnimatedCounter (total_dogs st) ''Dogs need homes'',
                AnimatedCounter (total_organizations st) ''Rescue Organizations'',
                AnimatedCounter (int (length (countries st))) ''Countries'']
               (BrowseAllDogs (Link ''/gallery''))]\<rparr>"
    using HeroSection_success [of ?s st] by (simp add: preview_area_def)
  moreover have "rendered_fallback_links ?s = [Link ''/gallery'']"
    using fallback_success [of ?s st] by simp
  ultimately show ?thesis
    by (simp add: default_previewDogs_def rendered_cards_empty fallback_loading
        fallback_error fallback_null)
qed

text \<open>
  Claim C5. The three counters of the success panel are given \<open>total_dogs\<close>,
  \<open>total_organizations\<close> and the length of \<open>countries\<close> of the stored statistics, in this
  order, and nothing else of the object.
\<close>

theorem counters_show_statistics:
  "success_panel (Some st) dogs =
     Inr (SuccessPanel
            [AnimatedCounter (total_dogs st) ''Dogs need homes'',
             AnimatedCounter (total_organizations st) ''Rescue Organizations'',
             AnimatedCounter (int (length (countries st))) ''Countries'']
            (preview_area dogs))
   \<and> HeroSection (c\<lparr>statistics := Some st, loading := False, error := None\<rparr>) =
     Inr \<lparr>cta_links = [Link ''/donate'', Link ''/gallery''],
          right_column =
            [SuccessPanel
               [AnimatedCounter (total_dogs st) ''Dogs need homes'',
                AnimatedCounter (total_organizations st) ''Rescue Organizations'',
                AnimatedCounter (int (length (countries st))) ''Countries'']
               (preview_area (previewDogs c))]\<rparr>"
  using HeroSection_success [of "c\<lparr>statistics := Some st, loading := False, error := None\<rparr>" st]
  by (simp add: success_panel_Some)

text \<open>
  Claim C6. Mounted without statistics, the first render has \<open>loading = True\<close> and shows
  the loading placeholder alone; the effect calls \<open>fetchStatistics\<close>, which issues one
  request. When that request resolves, the statistics are stored, \<open>loading\<close> is false, no
  error is set and the success panel is shown; when it rejects, the fixed message is set,
  \<open>loading\<close> is false, no statistics are stored and the error panel is shown.
\<close>

theorem mount_without_statistics_loads_then_settles:
  "loading (first_render None dogs) = True
   \<and> HeroSection (first_render None dogs) =
       Inr \<lparr>cta_links = [Link ''/donate'', Link ''/gallery''],
            right_column = [LoadingPlaceholder]\<rparr>
   \<and> mount None dogs = fetchStatistics (first_render None dogs)
   \<and> requests (mount None dogs) = 1
   \<and> pending (mount None dogs) = 1
   \<and> HeroSection (mount None dogs) =
       Inr \<lparr>cta_links = [Link ''/donate'', Link ''/gallery''],
            right_column = [LoadingPlaceholder]\<rparr>
   \<and> step (mount None dogs) (Settle (Resolved stats)) =
       \<lparr>initialStatistics = None, previewDogs = default_previewDogs dogs,
        statistics = Some stats, loading = False, error = None,
        pending = 0, requests = 1, reported = []\<rparr>
   \<and> HeroSection (step (mount None dogs) (Settle (Resolved stats))) =
       Inr \<lparr>cta_links = [Link ''/donate'', Link ''/gallery''],
            right_column =
              [SuccessPanel
                 [AnimatedCounter (total_dogs stats) ''Dogs need homes'',
                  AnimatedCounter (total_organizations stats) ''Rescue Organizations'',
                  AnimatedCounter (int (length (countries stats))) ''Countries'']
                 (preview_area (default_previewDogs dogs))]\<rparr>
   \<and> step (mount None dogs) (Settle (Rejected err)) =
       \<lparr>initialStatistics = None, previewDogs = default_previewDogs dogs,
        statistics = None, loading = False,
        error = Some ''Unable to load statistics. Please try again later.'',
        pending = 0, requests = 1,
        reported = [(''Error fetching statistics'', message err)]\<rparr>
   \<and> HeroSection (step (mount None dogs) (Settle (Rejected err))) =
       Inr \<lparr>cta_links = [Link ''/donate'', Link ''/gallery''],
            right_column =
              [ErrorPanel ''Unable to load statistics. Please try again later.''
                 onClick_fetchStatistics]\<rparr>"
proof -
  have first: "loading (first_render None dogs) = True"
    by (simp add: first_render_def truthy_object_def)
  have first_view: "HeroSection (first_render None dogs) =
       Inr \<lparr>cta_links = [Link ''/donate'', Link ''/gallery''],
            right_column = [LoadingPlaceholder]\<rparr>"
    by (rule HeroSection_loading) (simp_all add: first_render_def truthy_object_def)
  have effect: "mount None dogs = fetchStatistics (first_render None dogs)"
    by (simp add: mount_def useEffect_def first_render_def truthy_object_def)
  have mounted_view: "HeroSection (mount None dogs) =
       Inr \<lparr>cta_links = [Link ''/donate'', Link ''/gallery''],
            right_column = [LoadingPlaceholder]\<rparr>"
    by (rule HeroSection_loading) (simp_all add: mount_None)
  have ok: "step (mount None dogs) (Settle (Resolved stats)) =
       \<lparr>initialStatistics = None, previewDogs = default_previewDogs dogs,
        statistics = Some stats, loading = False, error = None,
        pending = 0, requests = 1, reported = []\<rparr>"
    by (simp add: mount_None settle_Resolved)
  have ok_view: "HeroSection (step (mount None dogs) (Settle (Resolved stats))) =
       Inr \<lparr>cta_links = [Link ''/donate'', Link ''/gallery''],
            right_column =
              [SuccessPanel
                 [AnimatedCounter (total_dogs stats) ''Dogs need homes'',
                  AnimatedCounter (total_organizations stats) ''Rescue Organizations'',
                  AnimatedCounter (int (length (countries stats))) ''Countries'']
                 (preview_area (default_previewDogs dogs))]\<rparr>"
    unfolding ok using HeroSection_success [of _ stats] by simp
  have ko: "step (mount None dogs) (Settle (Rejected err)) =
       \<lparr>initialStatistics = None, previewDogs = default_previewDogs dogs,
        statistics = None, loading = False,
        error = Some ''Unable to load statistics. Please try again later.'',
        pending = 0, requests = 1,
        reported = [(''Error fetching statistics'', message err)]\<rparr>"
    by (simp add: mount_None settle_Rejected)
  have ko_view: "HeroSection (step (mount None dogs) (Settle (Rejected err))) =
       Inr \<lparr>cta_links = [Link ''/donate'', Link ''/gallery''],
            right_column =
              [ErrorPanel ''Unable to load statistics. Please try again later.''
                 onClick_fetchStatistics]\<rparr>"
    unfolding ko by (rule HeroSection_error) simp_all
  have counts: "requests (mount None dogs) = 1 \<and> pending (mount None dogs) = 1"
    by (simp add: mount_None)
  from first first_view effect counts mounted_view ok ok_view ko ko_view
  show ?thesis by blast
qed

text \<open>
  Claim C7. After a failed request the right column is the error panel alone, with the
  fixed message and the button bound to \<open>fetchStatistics\<close>. Clicking the button runs
  \<open>fetchStatistics\<close>: \<open>loading\<close> is true, \<open>error\<close> is \<open>null\<close>, one more request is in
  flight, and the loading placeholder is shown.
\<close>

theorem failure_panel_retry_refetches:
  "HeroSection (settle (Rejected err) c) =
     Inr \<lparr>cta_links = [Link ''/donate'', Link ''/gallery''],
          right_column =
            [ErrorPanel ''Unable to load statistics. Please try again later.''
               onClick_fetchStatistics]\<rparr>
   \<and> step (settle (Rejected err) c) (Click onClick_fetchStatistics) =
       fetchStatistics (settle (Rejected err) c)
   \<and> loading (step (settle (Rejected err) c) (Click onClick_fetchStatistics)) = True
   \<and> error (step (settle (Rejected err) c) (Click onClick_fetchStatistics)) = None
   \<and> requests (step (settle (Rejected err) c) (Click onClick_fetchStatistics)) =
       Suc (requests c)
   \<and> pending (step (settle (Rejected err) c) (Click onClick_fetchStatistics)) =
       Suc (pending c)
   \<and> HeroSection (step (settle (Rejected err) c) (Click onClick_fetchStatistics)) =
       Inr \<lparr>cta_links = [Link ''/donate'', Link ''/gallery''],
            right_column = [LoadingPlaceholder]\<rparr>"
proof -
  let ?f = "settle (Rejected err) c"
  have panel: "HeroSection ?f =
     Inr \<lparr>cta_links = [Link ''/donate'', Link ''/gallery''],
          right_column =
            [ErrorPanel ''Unable to load statistics. Please try again later.''
               onClick_fetchStatistics]\<rparr>"
    by (rule HeroSection_error) (simp_all add: settle_Rejected)
  have click: "step ?f (Click onClick_fetchStatistics) = fetchStatistics ?f"
    by (simp add: retry_rendered_iff truthy_string_def settle_Rejected)
  have again: "HeroSection (fetchStatistics ?f) =
       Inr \<lparr>cta_links = [Link ''/donate'', Link ''/gallery''],
            right_column = [LoadingPlaceholder]\<rparr>"
    by (rule HeroSection_loading) (simp_all add: fetchStatistics_eq)
  from panel click again show ?thesis
    by (simp add: fetchStatistics_eq settle_Rejected)
qed

text \<open>
  Claim C8. In every state a mounted component can reach (settled requests, clicks on
  rendered buttons, re-renders with any props), the right column holds exactly one panel:
  the placeholder when loading, the error panel when an error is set, the success panel
  otherwise. When an error and statistics are both present, the panel is the error panel.
\<close>

theorem one_panel_error_before_success:
  assumes "c = run (mount init dogs) evs"
  shows "\<exists>p. HeroSection c =
               Inr \<lparr>cta_links = [Link ''/donate'', Link ''/gallery''], right_column = [p]\<rparr>
    \<and> is_LoadingPlaceholder p = loading c
    \<and> is_ErrorPanel p = (error c \<noteq> None)
    \<and> is_SuccessPanel p = (\<not> loading c \<and> error c = None \<and> statistics c \<noteq> None)
    \<and> (error c \<noteq> None \<and> statistics c \<noteq> None \<longrightarrow>
         p = ErrorPanel ''Unable to load statistics. Please try again later.''
               onClick_fetchStatistics)"
proof -
  have inv: "consistent c"
    unfolding assms by (rule consistent_reachable)
  show ?thesis
  proof (cases "loading c")
    case True
    with inv have "error c = None" by (simp add: consistent_def)
    with True show ?thesis
      using HeroSection_loading [of c] by simp
  next
    case False
    show ?thesis
    proof (cases "error c")
      case None
      with inv False obtain st where "statistics c = Some st"
        by (auto simp: consistent_def truthy_object_def split: option.splits)
      with None False show ?thesis
        using HeroSection_success [of c st] by simp
    next
      case (Some m)
      with inv False have "error c = Some ''Unable to load statistics. Please try again later.''"
        by (simp add: consistent_def)
      with False show ?thesis
        using HeroSection_error [of c] by simp
    qed
  qed
qed

text \<open>
  An instance where both are present: mounted with statistics, re-rendered without them
  (the effect then fetches), and the request fails.
\<close>

theorem one_panel_error_before_success_witness:
  "error (run (mount (Some st0) None) [Rerender None None, Settle (Rejected e0)]) \<noteq> None
   \<and> statistics (run (mount (Some st0) None) [Rerender None None, Settle (Rejected e0)])
       \<noteq> None
   \<and> HeroSection (run (mount (Some st0) None) [Rerender None None, Settle (Rejected e0)]) =
       Inr \<lparr>cta_links = [Link ''/donate'', Link ''/gallery''],
            right_column =
              [ErrorPanel ''Unable to load statistics. Please try again later.''
                 onClick_fetchStatistics]\<rparr>"
proof -
  let ?c = "run (mount (Some st0) None) [Rerender None None, Settle (Rejected e0)]"
  have both: "error ?c \<noteq> None \<and> statistics ?c \<noteq> None"
    by (simp add: run_def mount_Some first_render_def useEffect_def truthy_object_def
        fetchStatistics_eq settle_Rejected Let_def)
  from one_panel_error_before_success [of ?c "Some st0" None "[Rerender None None, Settle (Rejected e0)]"] both
  show ?thesis by auto
qed

text \<open>
  Claim C9. A rejected request leaves \<open>statistics\<close> as it was: the \<open>catch\<close> branch and
  \<open>finally\<close> never call \<open>setStatistics\<close>, so an object stored before is still stored
  after the failure, also after a retry that fails.
\<close>

theorem failure_keeps_statistics:
  "statistics (settle (Rejected err) c) = statistics c
   \<and> statistics (settle (Rejected err) (c\<lparr>statistics := Some st\<rparr>)) = Some st
   \<and> statistics (step c (Settle (Rejected err))) = statistics c
   \<and> statistics (step (step c (Click onClick_fetchStatistics)) (Settle (Rejected err))) =
       statistics c
   \<and> (\<forall>stats. setStatistics stats \<notin> set (fetchStatistics_resume (Rejected err)))
   \<and> error (settle (Rejected err) c) =
       Some ''Unable to load statistics. Please try again later.''"
  by (simp add: settle_Rejected fetchStatistics_eq)

text \<open>
  Claim C10. Rendering never throws, in any state: the panel that reads
  \<open>statistics.total_dogs\<close>, \<open>statistics.total_organizations\<close> and
  \<open>statistics.countries.length\<close> is built exactly when \<open>statistics\<close> is truthy (and the
  component is neither loading nor showing an error). Without the guard each of the three
  reads, and the panel, would throw on \<open>null\<close>.
\<close>

theorem render_reads_statistics_under_guard:
  "(\<exists>v. HeroSection c = Inr v)
   \<and> list_ex is_SuccessPanel (panels (HeroSection c)) =
       (truthy_object (statistics c) \<and> \<not> loading c \<and> \<not> truthy_string (error c))
   \<and> read_total_dogs None = Inl TypeError
   \<and> read_total_organizations None = Inl TypeError
   \<and> read_countries_length None = Inl TypeError
   \<and> success_panel None dogs = Inl TypeError"
proof -
  have "list_ex is_SuccessPanel (panels (HeroSection c)) =
       (truthy_object (statistics c) \<and> \<not> loading c \<and> \<not> truthy_string (error c))"
    by (simp add: panels_HeroSection truthy_object_def split: option.splits)
  then show ?thesis
    using HeroSection_total [of c]
    by (simp add: read_total_dogs_def read_total_organizations_def read_countries_length_def
        success_panel_def)
qed

end
